theory Spec2Isabelle
  imports Main "HOL-Library.Sublist"
begin

section \<open>Smart pointers and the objects they point to\<close>

text \<open>
  \<open>Ptr<T>\<close> is the reference-counting pointer of the attribute framework. The component
  objects of a pair are only ever created (\<open>Create<T>\<close>, \<open>Copy\<close>, \<open>CreateValidValue\<close>) and
  read through \<open>const\<close> member functions, so the store is the list of the objects created
  so far: a pointer is the index of its object, \<open>None\<close> is \<open>nullptr\<close>, and creating an
  object appends it. Reference counting keeps every pointee alive, so an index beyond the
  store has no counterpart in the program; \<open>deref\<close> reports it as \<open>InvalidPointer\<close>.
  Dereferencing \<open>nullptr\<close> (\<open>Ptr::operator->\<close>) is the error \<open>NullPointerDereference\<close>.
\<close>

datatype error = NullPointerDereference | InvalidPointer

type_synonym 'v store = "'v list"

type_synonym ptr = "nat option"

definition Create :: "'v \<Rightarrow> 'v store \<Rightarrow> ptr \<times> 'v store" where
  "Create v h = (Some (length h), h @ [v])"

text \<open>A function of the framework that returns a pointer to an object it has just created,
  or \<open>nullptr\<close>.\<close>

definition returned :: "'v option \<Rightarrow> 'v store \<Rightarrow> ptr \<times> 'v store" where
  "returned r h = (case r of None \<Rightarrow> (None, h) | Some v \<Rightarrow> Create v h)"

definition deref :: "ptr \<Rightarrow> 'v store \<Rightarrow> error + 'v" where
  "deref p h =
     (case p of
        None \<Rightarrow> Inl NullPointerDereference
      | Some a \<Rightarrow> if a < length h then Inr (h ! a) else Inl InvalidPointer)"

section \<open>The attribute framework the pair is written against\<close>

text \<open>
  \<open>'v\<close> is the universe of \<open>AttributeValue\<close> objects. A template argument \<open>A\<close> of
  \<open>PairValue<A, B>\<close> is used through \<open>Create<A>()\<close>, \<open>Create<A>(x)\<close>, the non-virtual
  \<open>A::Get\<close> and \<open>DynamicCast<A>\<close>; these four are the fields of \<open>value_class\<close>, with \<open>'a\<close> the
  type that \<open>A::Get\<close> returns.
\<close>

text \<open>\<open>is_instance A v\<close>: \<open>DynamicCast<A>\<close> succeeds on a pointer to the object \<open>v\<close>.\<close>

record ('v, 'a) value_class =
  Create_default :: "'v"
  Create_from :: "'a \<Rightarrow> 'v"
  Get_of :: "'v \<Rightarrow> 'a"
  is_instance :: "'v \<Rightarrow> bool"

text \<open>
  \<open>AttributeChecker\<close> objects. \<open>PairChecker\<close> is \<open>internal::PairChecker<A, B>\<close>, the only
  class derived from \<open>ns3::PairChecker\<close>, with its two member pointers and the two strings
  handed to \<open>MakeSimpleAttributeChecker\<close>; \<open>OtherChecker\<close> is a checker of any other class.
  \<open>CreateValidValue\<close> is called with \<open>StringValue(value)\<close>, hence on a string, and returns
  the object it created or \<open>nullptr\<close>.
\<close>

datatype 'v AttributeChecker =
    OtherChecker (CreateValidValue: "string \<Rightarrow> 'v option")
  | PairChecker (CreateValidValue: "string \<Rightarrow> 'v option")
      (GetValueTypeName: string) (GetUnderlyingTypeInformation: string)
      (m_firstchecker: "'v AttributeChecker option")
      (m_secondchecker: "'v AttributeChecker option")

text \<open>The virtual member functions of \<open>AttributeValue\<close> that the pair calls on its
  components.\<close>

record 'v AttributeValue_virtual =
  Copy_v :: "'v \<Rightarrow> 'v option"
  SerializeToString_v :: "'v \<Rightarrow> 'v AttributeChecker option \<Rightarrow> string"

definition DynamicCast :: "('v, 'a) value_class \<Rightarrow> ptr \<Rightarrow> 'v store \<Rightarrow> ptr" where
  "DynamicCast A p h =
     (case p of
        None \<Rightarrow> None
      | Some a \<Rightarrow> if a < length h \<and> is_instance A (h ! a) then Some a else None)"

fun DynamicCast_PairChecker :: "'v AttributeChecker option \<Rightarrow> 'v AttributeChecker option" where
  "DynamicCast_PairChecker None = None"
| "DynamicCast_PairChecker (Some (OtherChecker c)) = None"
| "DynamicCast_PairChecker (Some (PairChecker c n u f s)) = Some (PairChecker c n u f s)"

section \<open>internal::PairChecker\<close>

text \<open>\<open>SetCheckers\<close> and \<open>GetCheckers\<close> are members of pair checkers; the second equation of
  \<open>SetCheckers\<close> only makes the function total.\<close>

fun SetCheckers ::
  "'v AttributeChecker \<Rightarrow> 'v AttributeChecker option \<Rightarrow> 'v AttributeChecker option
     \<Rightarrow> 'v AttributeChecker" where
  "SetCheckers (PairChecker c n u f s) firstchecker secondchecker =
     PairChecker c n u firstchecker secondchecker"
| "SetCheckers (OtherChecker c) firstchecker secondchecker = OtherChecker c"

definition GetCheckers ::
  "'v AttributeChecker \<Rightarrow> 'v AttributeChecker option \<times> 'v AttributeChecker option" where
  "GetCheckers pchecker = (m_firstchecker pchecker, m_secondchecker pchecker)"

section \<open>MakePairChecker\<close>

text \<open>
  The types whose \<open>typeid\<close> is taken. \<open>typeid(T).name()\<close> is implementation-defined, so the
  naming function is a parameter; so is the \<open>CreateValidValue\<close> that the object built by
  \<open>MakeSimpleAttributeChecker\<close> inherits.
\<close>

datatype 'c cpp_type = Class 'c | Ptr "'c cpp_type" | StdPair "'c cpp_type" "'c cpp_type"

definition MakePairChecker ::
  "('c cpp_type \<Rightarrow> string) \<Rightarrow> (string \<Rightarrow> 'v option) \<Rightarrow> 'c \<Rightarrow> 'c \<Rightarrow> 'v AttributeChecker" where
  "MakePairChecker typeid_name base A B =
     (let first_type_name = typeid_name (Ptr (Class A));
          second_type_name = typeid_name (Ptr (Class B));
          pairName = ''ns3::PairValue<'' @ first_type_name @ '', '' @ second_type_name @ ''>'';
          underlyingType = typeid_name (StdPair (Ptr (Class A)) (Ptr (Class B)))
      in PairChecker base pairName underlyingType None None)"

text \<open>\<open>MakePairChecker<A, B>(firstchecker, secondchecker)\<close>: \<open>checker\<close> and \<open>acchecker\<close>
  point to the same object, so the checker returned is the one \<open>SetCheckers\<close> has updated.\<close>

definition MakePairChecker_set ::
  "('c cpp_type \<Rightarrow> string) \<Rightarrow> (string \<Rightarrow> 'v option) \<Rightarrow> 'c \<Rightarrow> 'c
     \<Rightarrow> 'v AttributeChecker option \<Rightarrow> 'v AttributeChecker option
     \<Rightarrow> error + 'v AttributeChecker" where
  "MakePairChecker_set typeid_name base A B firstchecker secondchecker =
     (let checker = MakePairChecker typeid_name base A B in
      case DynamicCast_PairChecker (Some checker) of
        None \<Rightarrow> Inl NullPointerDereference
      | Some acchecker \<Rightarrow> Inr (SetCheckers acchecker firstchecker secondchecker))"

section \<open>std::istringstream and operator>>\<close>

text \<open>
  The stream holds the characters not yet read and its \<open>eofbit\<close> and \<open>failbit\<close>.
  \<open>iss >> value\<close> first builds the sentry: a stream that is not \<open>good()\<close> gets \<open>failbit\<close>;
  otherwise white space is skipped, and reaching the end there sets \<open>eofbit\<close> and \<open>failbit\<close>.
  Only when the sentry succeeds is \<open>value\<close> erased and filled with the characters up to
  the next white space or the end (which sets \<open>eofbit\<close>). When the sentry fails,
  \<open>value\<close> keeps what it held.
\<close>

record istringstream =
  buf :: string
  eofbit :: bool
  failbit :: bool

definition isspace :: "char \<Rightarrow> bool" where
  "isspace c = (c \<in> set [CHR '' '', CHR 0x09, CHR 0x0A, CHR 0x0B, CHR 0x0C, CHR 0x0D])"

definition istringstream_of :: "string \<Rightarrow> istringstream" where
  "istringstream_of s = \<lparr>buf = s, eofbit = False, failbit = False\<rparr>"

definition extract_string :: "istringstream \<Rightarrow> string \<Rightarrow> istringstream \<times> string" where
  "extract_string iss str =
     (if eofbit iss \<or> failbit iss then (iss\<lparr>failbit := True\<rparr>, str)
      else
        let rest = dropWhile isspace (buf iss) in
        if rest = [] then (\<lparr>buf = [], eofbit = True, failbit = True\<rparr>, str)
        else
          let rest' = dropWhile (\<lambda>c. \<not> isspace c) rest in
          (\<lparr>buf = rest', eofbit = (rest' = []), failbit = False\<rparr>,
           takeWhile (\<lambda>c. \<not> isspace c) rest))"

section \<open>PairValue\<close>

record PairValue =
  m_value :: "ptr \<times> ptr"

text \<open>The default constructor \<open>PairValue()\<close>.\<close>

definition PairValue_default ::
  "('v, 'a) value_class \<Rightarrow> ('v, 'b) value_class \<Rightarrow> 'v store \<Rightarrow> PairValue \<times> 'v store" where
  "PairValue_default A B h =
     (let (a, h) = Create (Create_default A) h;
          (b, h) = Create (Create_default B) h
      in (\<lparr>m_value = (a, b)\<rparr>, h))"

definition Set ::
  "('v, 'a) value_class \<Rightarrow> ('v, 'b) value_class \<Rightarrow> PairValue \<Rightarrow> 'a \<times> 'b \<Rightarrow> 'v store
     \<Rightarrow> PairValue \<times> 'v store" where
  "Set A B this value h =
     (let (a, h) = Create (Create_from A (fst value)) h;
          (b, h) = Create (Create_from B (snd value)) h
      in (this\<lparr>m_value := (a, b)\<rparr>, h))"

text \<open>The ``import'' constructor \<open>PairValue(const result_type& value)\<close>: the member starts as
  a pair of null pointers and \<open>Set\<close> fills it.\<close>

definition PairValue_import ::
  "('v, 'a) value_class \<Rightarrow> ('v, 'b) value_class \<Rightarrow> 'a \<times> 'b \<Rightarrow> 'v store
     \<Rightarrow> PairValue \<times> 'v store" where
  "PairValue_import A B value h = Set A B \<lparr>m_value = (None, None)\<rparr> value h"

definition Get ::
  "('v, 'a) value_class \<Rightarrow> ('v, 'b) value_class \<Rightarrow> PairValue \<Rightarrow> 'v store
     \<Rightarrow> error + 'a \<times> 'b" where
  "Get A B this h =
     (case deref (fst (m_value this)) h of
        Inl e \<Rightarrow> Inl e
      | Inr v1 \<Rightarrow>
          (case deref (snd (m_value this)) h of
             Inl e \<Rightarrow> Inl e
           | Inr v2 \<Rightarrow> Inr (Get_of A v1, Get_of B v2)))"

text \<open>
  \<open>Copy\<close> returns a pointer to a new \<open>PairValue\<close>, here the new pair itself. \<open>p\<close> is built by
  the default constructor. The two arguments of \<open>std::make_pair\<close> are evaluated first to
  second (their order only decides which of the two copies is created first).
\<close>

definition Copy ::
  "'v AttributeValue_virtual \<Rightarrow> ('v, 'a) value_class \<Rightarrow> ('v, 'b) value_class
     \<Rightarrow> PairValue \<Rightarrow> 'v store \<Rightarrow> error + PairValue \<times> 'v store" where
  "Copy V A B this h =
     (let (p, h) = PairValue_default A B h in
      if fst (m_value this) \<noteq> None then
        (case deref (fst (m_value this)) h of
           Inl e \<Rightarrow> Inl e
         | Inr v1 \<Rightarrow>
             let (c1, h) = returned (Copy_v V v1) h in
             (case deref (snd (m_value this)) h of
                Inl e \<Rightarrow> Inl e
              | Inr v2 \<Rightarrow>
                  let (c2, h) = returned (Copy_v V v2) h in
                  Inr (p\<lparr>m_value := (DynamicCast A c1 h, DynamicCast B c2 h)\<rparr>, h)))
      else Inr (p, h))"

text \<open>
  The result is \<open>Inl\<close> when a null pointer is dereferenced, and otherwise the boolean
  returned, the pair and the store after the call. An object created by \<open>CreateValidValue\<close>
  stays in the store when the call returns false: nothing points to it any more.
\<close>

definition DeserializeFromString ::
  "('v, 'a) value_class \<Rightarrow> ('v, 'b) value_class \<Rightarrow> PairValue \<Rightarrow> string
     \<Rightarrow> 'v AttributeChecker option \<Rightarrow> 'v store \<Rightarrow> error + bool \<times> PairValue \<times> 'v store" where
  "DeserializeFromString A B this value checker h =
     (case DynamicCast_PairChecker checker of
        None \<Rightarrow> Inr (False, this, h)
      | Some pchecker \<Rightarrow>
          let (iss, value) = extract_string (istringstream_of value) value in
          (case fst (GetCheckers pchecker) of
             None \<Rightarrow> Inl NullPointerDereference
           | Some firstchecker \<Rightarrow>
               let (first, h) = returned (CreateValidValue firstchecker value) h in
               if first = None then Inr (False, this, h)
               else
                 let firstattr = DynamicCast A first h in
                 if firstattr = None then Inr (False, this, h)
                 else
                   let (iss, value) = extract_string iss value in
                   (case snd (GetCheckers pchecker) of
                      None \<Rightarrow> Inl NullPointerDereference
                    | Some secondchecker \<Rightarrow>
                        let (second, h) = returned (CreateValidValue secondchecker value) h in
                        if second = None then Inr (False, this, h)
                        else
                          let secondattr = DynamicCast B second h in
                          if secondattr = None then Inr (False, this, h)
                          else Inr (True, this\<lparr>m_value := (firstattr, secondattr)\<rparr>, h))))"

definition SerializeToString ::
  "'v AttributeValue_virtual \<Rightarrow> PairValue \<Rightarrow> 'v AttributeChecker option \<Rightarrow> 'v store
     \<Rightarrow> error + string" where
  "SerializeToString V this checker h =
     (case deref (fst (m_value this)) h of
        Inl e \<Rightarrow> Inl e
      | Inr v1 \<Rightarrow>
          (case deref (snd (m_value this)) h of
             Inl e \<Rightarrow> Inl e
           | Inr v2 \<Rightarrow>
               Inr (SerializeToString_v V v1 checker @ '' '' @ SerializeToString_v V v2 checker)))"

section \<open>Notions used to state the properties\<close>

text \<open>A pointer is valid in a store when it is null or points to an object of the store.\<close>

definition valid_ptr :: "ptr \<Rightarrow> 'v store \<Rightarrow> bool" where
  "valid_ptr p h = (case p of None \<Rightarrow> True | Some a \<Rightarrow> a < length h)"

definition valid :: "PairValue \<Rightarrow> 'v store \<Rightarrow> bool" where
  "valid this h = (valid_ptr (fst (m_value this)) h \<and> valid_ptr (snd (m_value this)) h)"

text \<open>The white-space-delimited tokens of a text: runs of white space separate them, and
  leading and trailing white space is dropped.\<close>

function tokens :: "string \<Rightarrow> string list" where
  "tokens s =
     (if dropWhile isspace s = [] then []
      else takeWhile (\<lambda>c. \<not> isspace c) (dropWhile isspace s)
             # tokens (dropWhile (\<lambda>c. \<not> isspace c) (dropWhile isspace s)))"
  by pat_completeness auto
termination
proof (relation "measure length")
  show "wf (measure length)" by simp
next
  fix s :: string
  assume ne: "dropWhile isspace s \<noteq> []"
  then have "\<not> isspace (hd (dropWhile isspace s))"
    by (rule hd_dropWhile)
  with ne have "length (dropWhile (\<lambda>c. \<not> isspace c) (dropWhile isspace s))
                  < length (dropWhile isspace s)"
    by (cases "dropWhile isspace s") (auto intro: le_imp_less_Suc length_dropWhile_le)
  also have "\<dots> \<le> length s"
    by (rule length_dropWhile_le)
  finally show "(dropWhile (\<lambda>c. \<not> isspace c) (dropWhile isspace s), s) \<in> measure length"
    by simp
qed

declare tokens.simps [simp del]

text \<open>The text that the first and the second \<open>iss >> value\<close> of \<open>DeserializeFromString\<close>
  leave in \<open>value\<close>.\<close>

definition first_token :: "string \<Rightarrow> string" where
  "first_token text = snd (extract_string (istringstream_of text) text)"

definition second_token :: "string \<Rightarrow> string" where
  "second_token text =
     (let (iss, value) = extract_string (istringstream_of text) text
      in snd (extract_string iss value))"

text \<open>A checker argument with which \<open>DeserializeFromString\<close> dereferences no null component
  checker: the null pointer, a checker that is not a pair checker, or a pair checker with both
  component checkers set.\<close>

fun checkers_set :: "'v AttributeChecker option \<Rightarrow> bool" where
  "checkers_set None = True"
| "checkers_set (Some (OtherChecker c)) = True"
| "checkers_set (Some (PairChecker c n u f s)) = (f \<noteq> None \<and> s \<noteq> None)"

text \<open>Both components are present: neither pointer is null, and both point into the
  store.\<close>

definition both_present :: "PairValue \<Rightarrow> 'v store \<Rightarrow> bool" where
  "both_present this h =
     (case m_value this of
        (Some a, Some b) \<Rightarrow> a < length h \<and> b < length h
      | _ \<Rightarrow> False)"

text \<open>
  The states of a \<open>PairValue<A, B>\<close> that its public interface produces: either constructor,
  then any number of calls of \<open>Set\<close> and of \<open>DeserializeFromString\<close> that return (with
  either result), while other objects may be created in between.
\<close>

inductive reachable ::
  "('v, 'a) value_class \<Rightarrow> ('v, 'b) value_class \<Rightarrow> PairValue \<times> 'v store \<Rightarrow> bool"
  for A :: "('v, 'a) value_class" and B :: "('v, 'b) value_class" where
  default: "reachable A B (PairValue_default A B h)"
| import: "reachable A B (PairValue_import A B value h)"
| set: "reachable A B (this, h) \<Longrightarrow> reachable A B (Set A B this value h)"
| deserialize:
    "reachable A B (this, h) \<Longrightarrow>
     DeserializeFromString A B this text checker h = Inr (b, this', h') \<Longrightarrow>
     reachable A B (this', h')"
| other: "reachable A B (this, h) \<Longrightarrow> reachable A B (this, h @ ext)"

text \<open>
  The round trip: a pair is constructed from \<open>value\<close> and serialized, the text is
  deserialized into a fresh default-constructed pair with the same checker, and \<open>Get\<close> is
  read from it. The result is what \<open>DeserializeFromString\<close> returned and what \<open>Get\<close> returned.
\<close>

definition roundtrip ::
  "'v AttributeValue_virtual \<Rightarrow> ('v, 'a) value_class \<Rightarrow> ('v, 'b) value_class
     \<Rightarrow> 'v AttributeChecker option \<Rightarrow> 'a \<times> 'b \<Rightarrow> 'v store \<Rightarrow> error + bool \<times> 'a \<times> 'b" where
  "roundtrip V A B checker value h =
     (let (source, h) = PairValue_import A B value h in
      case SerializeToString V source checker h of
        Inl e \<Rightarrow> Inl e
      | Inr text \<Rightarrow>
          let (fresh, h) = PairValue_default A B h in
          (case DeserializeFromString A B fresh text checker h of
             Inl e \<Rightarrow> Inl e
           | Inr (ok, fresh, h) \<Rightarrow>
               (case Get A B fresh h of
                  Inl e \<Rightarrow> Inl e
                | Inr r \<Rightarrow> Inr (ok, r))))"

section \<open>Component classes for the examples\<close>

text \<open>
  Modelled from the spec: the component value classes and their checkers are not part of
  the pair's source (it only requires the capabilities of a component: Copy, Get,
  construction from the semantic value, SerializeToString, and a checker with
  CreateValidValue). The examples use an integer attribute, written in decimal and whose
  checker rejects non-numeric text, and a string attribute, written as it is and whose
  checker accepts every text.
\<close>

datatype AttributeValue = IntegerValue int | StringValue string

definition digit_char :: "nat \<Rightarrow> char" where
  "digit_char d = ''0123456789'' ! d"

function show_nat :: "nat \<Rightarrow> string" where
  "show_nat n = (if n < 10 then [digit_char n] else show_nat (n div 10) @ [digit_char (n mod 10)])"
  by pat_completeness auto
termination
  by (relation "measure id") auto

declare show_nat.simps [simp del]

definition show_int :: "int \<Rightarrow> string" where
  "show_int i = (if i < 0 then CHR ''-'' # show_nat (nat (- i)) else show_nat (nat i))"

definition digit_value :: "char \<Rightarrow> nat option" where
  "digit_value c =
     map_of (zip ''0123456789'' [0, 1, 2, 3, 4, 5, 6, 7, 8, 9]) c"

fun read_nat :: "nat \<Rightarrow> string \<Rightarrow> nat option" where
  "read_nat acc [] = Some acc"
| "read_nat acc (c # cs) =
     (case digit_value c of None \<Rightarrow> None | Some d \<Rightarrow> read_nat (10 * acc + d) cs)"

definition read_int :: "string \<Rightarrow> int option" where
  "read_int s =
     (case s of
        [] \<Rightarrow> None
      | c # cs \<Rightarrow>
          if c = CHR ''-'' then (if cs = [] then None else map_option (\<lambda>n. - int n) (read_nat 0 cs))
          else map_option int (read_nat 0 s))"

text \<open>Modelled from the spec: the integer attribute as a template argument.\<close>

definition IntegerValue_class :: "(AttributeValue, int) value_class" where
  "IntegerValue_class =
     \<lparr>Create_default = IntegerValue 0,
      Create_from = IntegerValue,
      Get_of = (\<lambda>v. case v of IntegerValue i \<Rightarrow> i | StringValue s \<Rightarrow> 0),
      is_instance = (\<lambda>v. case v of IntegerValue i \<Rightarrow> True | StringValue s \<Rightarrow> False)\<rparr>"

text \<open>Modelled from the spec: the string attribute as a template argument.\<close>

definition StringValue_class :: "(AttributeValue, string) value_class" where
  "StringValue_class =
     \<lparr>Create_default = StringValue [],
      Create_from = StringValue,
      Get_of = (\<lambda>v. case v of IntegerValue i \<Rightarrow> [] | StringValue s \<Rightarrow> s),
      is_instance = (\<lambda>v. case v of IntegerValue i \<Rightarrow> False | StringValue s \<Rightarrow> True)\<rparr>"

text \<open>Modelled from the spec: Copy and SerializeToString of the two component classes.\<close>

definition AttributeValue_methods :: "AttributeValue AttributeValue_virtual" where
  "AttributeValue_methods =
     \<lparr>Copy_v = (\<lambda>v. Some v),
      SerializeToString_v = (\<lambda>v checker. case v of IntegerValue i \<Rightarrow> show_int i | StringValue s \<Rightarrow> s)\<rparr>"

text \<open>Modelled from the spec: the checker of the integer attribute.\<close>

definition MakeIntegerChecker :: "AttributeValue AttributeChecker" where
  "MakeIntegerChecker = OtherChecker (\<lambda>s. map_option IntegerValue (read_int s))"

text \<open>Modelled from the spec: the checker of the string attribute.\<close>

definition MakeStringChecker :: "AttributeValue AttributeChecker" where
  "MakeStringChecker = OtherChecker (\<lambda>s. Some (StringValue s))"

text \<open>Modelled from the spec: the identities of the two component classes, and the names
  that \<open>typeid(T).name()\<close> gives with g++ to the types of the examples (the two classes, the
  pointers to them, and the four pairs of such pointers); a type that occurs in no example
  has the empty name here.\<close>

datatype component_class = IntegerValue_id | StringValue_id

fun example_typeid :: "component_class cpp_type \<Rightarrow> string" where
  "example_typeid (Class IntegerValue_id) = ''N3ns312IntegerValueE''"
| "example_typeid (Class StringValue_id) = ''N3ns311StringValueE''"
| "example_typeid (Ptr (Class IntegerValue_id)) = ''N3ns33PtrINS_12IntegerValueEEE''"
| "example_typeid (Ptr (Class StringValue_id)) = ''N3ns33PtrINS_11StringValueEEE''"
| "example_typeid (StdPair (Ptr (Class IntegerValue_id)) (Ptr (Class IntegerValue_id))) =
     ''St4pairIN3ns33PtrINS0_12IntegerValueEEES3_E''"
| "example_typeid (StdPair (Ptr (Class IntegerValue_id)) (Ptr (Class StringValue_id))) =
     ''St4pairIN3ns33PtrINS0_12IntegerValueEEENS1_INS0_11StringValueEEEE''"
| "example_typeid (StdPair (Ptr (Class StringValue_id)) (Ptr (Class IntegerValue_id))) =
     ''St4pairIN3ns33PtrINS0_11StringValueEEENS1_INS0_12IntegerValueEEEE''"
| "example_typeid (StdPair (Ptr (Class StringValue_id)) (Ptr (Class StringValue_id))) =
     ''St4pairIN3ns33PtrINS0_11StringValueEEES3_E''"
| "example_typeid t = []"

text \<open>\<open>MakePairChecker<IntegerValue, StringValue>(MakeIntegerChecker(), MakeStringChecker())\<close>,
  and the checkers of the pairs of two integers and of two strings.\<close>

definition integer_string_checker :: "AttributeValue AttributeChecker" where
  "integer_string_checker =
     SetCheckers (MakePairChecker example_typeid (\<lambda>s. None) IntegerValue_id StringValue_id)
       (Some MakeIntegerChecker) (Some MakeStringChecker)"

definition integer_integer_checker :: "AttributeValue AttributeChecker" where
  "integer_integer_checker =
     SetCheckers (MakePairChecker example_typeid (\<lambda>s. None) IntegerValue_id IntegerValue_id)
       (Some MakeIntegerChecker) (Some MakeIntegerChecker)"

definition string_string_checker :: "AttributeValue AttributeChecker" where
  "string_string_checker =
     SetCheckers (MakePairChecker example_typeid (\<lambda>s. None) StringValue_id StringValue_id)
       (Some MakeStringChecker) (Some MakeStringChecker)"

text \<open>\<open>MakePairChecker<IntegerValue, IntegerValue>()\<close>: no component checker is set.\<close>

definition unset_checker :: "AttributeValue AttributeChecker" where
  "unset_checker = MakePairChecker example_typeid (\<lambda>s. None) IntegerValue_id IntegerValue_id"

text \<open>\<open>MakePairChecker<IntegerValue, IntegerValue>(MakeStringChecker(), MakeIntegerChecker())\<close>:
  the first component checker accepts every text and creates string values.\<close>

definition string_integer_checker :: "AttributeValue AttributeChecker" where
  "string_integer_checker =
     SetCheckers (MakePairChecker example_typeid (\<lambda>s. None) IntegerValue_id IntegerValue_id)
       (Some MakeStringChecker) (Some MakeIntegerChecker)"

text \<open>
  Modelled from the spec: a component class with a class derived from it (the spec has
  checkers that accept ``a broader family of types''). An object carries its concrete class
  and a string; \<open>DerivedValue\<close> is derived from \<open>BaseValue\<close>, so \<open>dynamic_cast\<close> to \<open>BaseValue\<close>
  succeeds on the objects of both classes.
\<close>

datatype hierarchy_class = BaseValue_id | DerivedValue_id

datatype hierarchy_value = Object (concrete_class: hierarchy_class) (content: string)

fun derived_from :: "hierarchy_class \<Rightarrow> hierarchy_class \<Rightarrow> bool" where
  "derived_from c BaseValue_id = True"
| "derived_from c DerivedValue_id = (c = DerivedValue_id)"

text \<open>Modelled from the spec: \<open>BaseValue\<close> as a template argument.\<close>

definition BaseValue_class :: "(hierarchy_value, string) value_class" where
  "BaseValue_class =
     \<lparr>Create_default = Object BaseValue_id [],
      Create_from = Object BaseValue_id,
      Get_of = content,
      is_instance = (\<lambda>v. derived_from (concrete_class v) BaseValue_id)\<rparr>"

text \<open>Modelled from the spec: a checker that accepts every text and creates a
  \<open>DerivedValue\<close>, and the pair checker of \<open>PairValue<BaseValue, BaseValue>\<close> configured with
  it for both components (its two type names are not read).\<close>

definition MakeDerivedChecker :: "hierarchy_value AttributeChecker" where
  "MakeDerivedChecker = OtherChecker (\<lambda>s. Some (Object DerivedValue_id s))"

definition derived_derived_checker :: "hierarchy_value AttributeChecker" where
  "derived_derived_checker =
     SetCheckers (MakePairChecker (\<lambda>t. []) (\<lambda>s. None) BaseValue_id BaseValue_id)
       (Some MakeDerivedChecker) (Some MakeDerivedChecker)"

text \<open>
  Modelled from the spec: C++ leaves \<open>typeid(T).name()\<close> to the implementation. Here two
  distinct classes called \<open>Hidden\<close>, each in the unnamed namespace of its own translation
  unit, have the same name (as with g++), and four further classes have names with a comma
  in them, which nothing excludes.
\<close>

datatype unnamed_class = Hidden_1 | Hidden_2 | Comma_1 | Comma_2 | Comma_3 | Comma_4

fun colliding_typeid :: "unnamed_class cpp_type \<Rightarrow> string" where
  "colliding_typeid (Ptr (Class Hidden_1)) = ''N3ns33PtrIN12_GLOBAL__N_16HiddenEEE''"
| "colliding_typeid (Ptr (Class Hidden_2)) = ''N3ns33PtrIN12_GLOBAL__N_16HiddenEEE''"
| "colliding_typeid (Ptr (Class Comma_1)) = ''a, b''"
| "colliding_typeid (Ptr (Class Comma_2)) = ''c''"
| "colliding_typeid (Ptr (Class Comma_3)) = ''a''"
| "colliding_typeid (Ptr (Class Comma_4)) = ''b, c''"
| "colliding_typeid t = []"

section \<open>Evaluating the examples\<close>

lemmas fixture_defs = IntegerValue_class_def StringValue_class_def AttributeValue_methods_def
  MakeIntegerChecker_def MakeStringChecker_def integer_string_checker_def
  integer_integer_checker_def string_string_checker_def unset_checker_def
  string_integer_checker_def BaseValue_class_def MakeDerivedChecker_def
  derived_derived_checker_def MakePairChecker_def

lemmas op_defs = DeserializeFromString_def SerializeToString_def Get_def Set_def Copy_def
  PairValue_default_def PairValue_import_def Create_def returned_def deref_def DynamicCast_def
  GetCheckers_def extract_string_def istringstream_of_def isspace_def read_int_def
  digit_value_def show_int_def digit_char_def show_nat.simps

section \<open>The store only grows\<close>

lemma Create_eq: "Create v h = (p, h') \<longleftrightarrow> p = Some (length h) \<and> h' = h @ [v]"
  by (auto simp: Create_def)

lemma returned_prefix: "returned r h = (p, h') \<Longrightarrow> prefix h h'"
  by (auto simp: returned_def Create_def split: option.splits)

lemma deref_append: "valid_ptr p h \<Longrightarrow> deref p (h @ ext) = deref p h"
  by (auto simp: valid_ptr_def deref_def nth_append split: option.splits)

lemma Get_append: "valid this h \<Longrightarrow> Get A B this (h @ ext) = Get A B this h"
  by (simp add: valid_def Get_def deref_append cong: sum.case_cong)

lemma Get_prefix: "valid this h \<Longrightarrow> prefix h h' \<Longrightarrow> Get A B this h' = Get A B this h"
  by (auto simp: prefix_def Get_append)

lemma DeserializeFromString_prefix:
  assumes "DeserializeFromString A B this text checker h = Inr (b, this', h')"
  shows "prefix h h'"
  using assms
  by (auto simp: DeserializeFromString_def Let_def returned_def Create_def
           split: option.splits prod.splits if_splits)

lemma DeserializeFromString_False_this:
  assumes "DeserializeFromString A B this text checker h = Inr (False, this', h')"
  shows "this' = this"
  using assms
  by (auto simp: DeserializeFromString_def Let_def
           split: option.splits prod.splits if_splits)

section \<open>What the two extractions read, and what the call returns\<close>

lemma DynamicCast_PairChecker_Some:
  "DynamicCast_PairChecker checker = Some pchecker \<Longrightarrow> checker = Some pchecker"
  by (cases checker rule: DynamicCast_PairChecker.cases) auto

lemma MakePairChecker_set_eq:
  "MakePairChecker_set typeid_name base A B firstchecker secondchecker
     = Inr (SetCheckers (MakePairChecker typeid_name base A B) firstchecker secondchecker)"
  by (simp add: MakePairChecker_set_def MakePairChecker_def)

lemma DynamicCast_new:
  "DynamicCast A (Some (length h)) (h @ v # vs) = (if is_instance A v then Some (length h) else None)"
  by (simp add: DynamicCast_def)

lemma DeserializeFromString_pair:
  assumes "DynamicCast_PairChecker checker = Some pchecker"
    and "GetCheckers pchecker = (Some fc, Some sc)"
  shows "DeserializeFromString A B this text checker h =
     (case CreateValidValue fc (first_token text) of
        None \<Rightarrow> Inr (False, this, h)
      | Some v1 \<Rightarrow>
          if \<not> is_instance A v1 then Inr (False, this, h @ [v1])
          else
            (case CreateValidValue sc (second_token text) of
               None \<Rightarrow> Inr (False, this, h @ [v1])
             | Some v2 \<Rightarrow>
                 if \<not> is_instance B v2 then Inr (False, this, h @ [v1, v2])
                 else Inr (True, this\<lparr>m_value := (Some (length h), Some (Suc (length h)))\<rparr>,
                           h @ [v1, v2])))"
  using assms
  by (auto simp: DeserializeFromString_def first_token_def second_token_def returned_def
       Create_def DynamicCast_def nth_append
       split: option.splits prod.splits)

lemma tokens_Nil: "tokens [] = []"
  by (subst tokens.simps) simp

lemma tokens_Cons:
  assumes "tokens s = t # ts"
  shows "dropWhile isspace s \<noteq> []"
    and "t = takeWhile (\<lambda>c. \<not> isspace c) (dropWhile isspace s)"
    and "ts = tokens (dropWhile (\<lambda>c. \<not> isspace c) (dropWhile isspace s))"
  using assms by (subst (asm) tokens.simps, simp split: if_splits)+

lemma extract_string_tokens:
  assumes "\<not> eofbit iss" and "\<not> failbit iss" and "tokens (buf iss) = t # ts"
  shows "\<exists>r. extract_string iss str = (\<lparr>buf = r, eofbit = (r = []), failbit = False\<rparr>, t)
             \<and> tokens r = ts"
  using assms tokens_Cons [OF assms(3)]
  by (simp add: extract_string_def Let_def)

lemma first_second_token:
  assumes "tokens text = t0 # t1 # ts"
  shows "first_token text = t0 \<and> second_token text = t1"
proof -
  obtain r where r: "extract_string (istringstream_of text) text
                       = (\<lparr>buf = r, eofbit = (r = []), failbit = False\<rparr>, t0)"
    and tr: "tokens r = t1 # ts"
    using extract_string_tokens [of "istringstream_of text" t0 "t1 # ts" "text"] assms
    by (auto simp: istringstream_of_def)
  from tr have "r \<noteq> []" by (auto simp: tokens_Nil)
  then obtain r' where "extract_string \<lparr>buf = r, eofbit = (r = []), failbit = False\<rparr> t0
                       = (\<lparr>buf = r', eofbit = (r' = []), failbit = False\<rparr>, t1)"
    using extract_string_tokens [of "\<lparr>buf = r, eofbit = (r = []), failbit = False\<rparr>" t1 ts t0] tr
    by auto
  with r show ?thesis
    by (simp add: first_token_def second_token_def)
qed

lemma dropWhile_isspace_word:
  assumes "w \<noteq> []" and "\<forall>c\<in>set w. \<not> isspace c"
  shows "dropWhile isspace (w @ r) = w @ r"
  using assms by (cases w) auto

lemma tokens_word:
  assumes "w \<noteq> []" and "\<forall>c\<in>set w. \<not> isspace c"
  shows "tokens w = [w]"
proof -
  have a: "dropWhile isspace w = w"
    using dropWhile_isspace_word [OF assms, of "[]"] by simp
  have b: "takeWhile (\<lambda>c. \<not> isspace c) w = w"
    using assms(2) by (simp add: takeWhile_eq_all_conv)
  have c: "dropWhile (\<lambda>c. \<not> isspace c) w = []"
    using assms(2) by simp
  show ?thesis
    using assms(1) by (simp add: tokens.simps [of w] a b c tokens_Nil)
qed

lemma tokens_space:
  assumes "isspace c"
  shows "tokens (c # r) = tokens r"
  using assms by (simp add: tokens.simps [of "c # r"] tokens.simps [of r])

lemma tokens_word_space:
  assumes "w \<noteq> []" and "\<forall>c\<in>set w. \<not> isspace c" and "isspace c"
  shows "tokens (w @ c # r) = w # tokens r"
proof -
  have a: "dropWhile isspace (w @ c # r) = w @ c # r"
    using assms(1,2) by (rule dropWhile_isspace_word)
  have b: "takeWhile (\<lambda>c. \<not> isspace c) (w @ c # r) = w"
    using assms(2,3) by (simp add: takeWhile_tail)
  have d: "dropWhile (\<lambda>c. \<not> isspace c) (w @ c # r) = c # r"
    using assms(2,3) by (simp add: dropWhile_append3)
  show ?thesis
    using assms(1) by (simp add: tokens.simps [of "w @ c # r"] a b d tokens_space [OF assms(3)])
qed

lemma isspace_space: "isspace CHR '' ''"
  by (simp add: isspace_def)

section \<open>Failure atomicity of DeserializeFromString\<close>

text \<open>
  C1. Whenever \<open>DeserializeFromString\<close> returns false, whatever the reason, the pair holds
  the very pointers it held before, the objects of the store are the ones that were there
  (the store has only been extended), and \<open>Get\<close> returns what it returned before the call.
\<close>

theorem DeserializeFromString_failure_atomic:
  assumes "DeserializeFromString A B this text checker h = Inr (False, this', h')"
    and "valid this h"
  shows "this' = this \<and> prefix h h' \<and> Get A B this' h' = Get A B this h"
proof -
  have same: "this' = this"
    using assms(1) by (rule DeserializeFromString_False_this)
  have grow: "prefix h h'"
    using assms(1) by (rule DeserializeFromString_prefix)
  from assms(2) grow have "Get A B this h' = Get A B this h"
    by (rule Get_prefix)
  with same grow show ?thesis by simp
qed

theorem DeserializeFromString_failure_atomic_witness:
  "DeserializeFromString IntegerValue_class StringValue_class \<lparr>m_value = (Some 0, Some 1)\<rparr>
      ''abc 2.5'' (Some integer_string_checker) [IntegerValue 3, StringValue ''x'']
     = Inr (False, \<lparr>m_value = (Some 0, Some 1)\<rparr>, [IntegerValue 3, StringValue ''x''])
   \<and> valid \<lparr>m_value = (Some 0, Some 1)\<rparr> [IntegerValue 3, StringValue ''x'']
   \<and> Get IntegerValue_class StringValue_class \<lparr>m_value = (Some 0, Some 1)\<rparr>
        [IntegerValue 3, StringValue ''x''] = Inr (3, ''x'')"
proof -
  have run: "DeserializeFromString IntegerValue_class StringValue_class
      \<lparr>m_value = (Some 0, Some 1)\<rparr> ''abc 2.5'' (Some integer_string_checker)
      [IntegerValue 3, StringValue ''x'']
     = Inr (False, \<lparr>m_value = (Some 0, Some 1)\<rparr>, [IntegerValue 3, StringValue ''x''])"
    by (simp add: fixture_defs op_defs)
  have ok: "valid \<lparr>m_value = (Some 0, Some 1)\<rparr> [IntegerValue 3, StringValue ''x'']"
    by (simp add: valid_def valid_ptr_def)
  have "Get IntegerValue_class StringValue_class \<lparr>m_value = (Some 0, Some 1)\<rparr>
        [IntegerValue 3, StringValue ''x''] = Inr (3, ''x'')"
    by (simp add: fixture_defs op_defs)
  with DeserializeFromString_failure_atomic [OF run ok] run ok show ?thesis by simp
qed

section \<open>The format written by SerializeToString\<close>

text \<open>
  C6. When both components are present, \<open>SerializeToString\<close> returns the serialization of
  the first component, one space, and the serialization of the second component, in this
  order; both component calls receive the checker that the pair received.
\<close>

theorem SerializeToString_format:
  assumes "deref (fst (m_value this)) h = Inr v1"
    and "deref (snd (m_value this)) h = Inr v2"
  shows "SerializeToString V this checker h =
           Inr (SerializeToString_v V v1 checker @ [CHR '' ''] @ SerializeToString_v V v2 checker)"
  using assms by (simp add: SerializeToString_def)


theorem SerializeToString_format_witness:
  "SerializeToString AttributeValue_methods \<lparr>m_value = (Some 0, Some 1)\<rparr>
     (Some integer_string_checker) [IntegerValue 3, StringValue ''x''] = Inr ''3 x''"
proof -
  have 1: "deref (fst (m_value \<lparr>m_value = (Some 0, Some 1)\<rparr>)) [IntegerValue 3, StringValue ''x'']
             = Inr (IntegerValue 3)"
    by (simp add: deref_def)
  have 2: "deref (snd (m_value \<lparr>m_value = (Some 0, Some 1)\<rparr>)) [IntegerValue 3, StringValue ''x'']
             = Inr (StringValue ''x'')"
    by (simp add: deref_def)
  show ?thesis
    using SerializeToString_format [OF 1 2, of AttributeValue_methods "Some integer_string_checker"]
    by (simp add: AttributeValue_methods_def show_int_def digit_char_def show_nat.simps)
qed

section \<open>Checker acceptance and type match\<close>

text \<open>
  C5. Acceptance by a component checker and the type of the value it produced are two
  separate tests. When the first component checker accepts its token and produces \<open>v1\<close>, the
  call returns false, leaving the pair as it was, unless \<open>DynamicCast<A>\<close> succeeds on \<open>v1\<close>;
  when it does, the call returns false unless the second component checker accepts its
  token, and then false again unless \<open>DynamicCast<B>\<close> succeeds on the value \<open>v2\<close> it
  produced. The test is the cast: it succeeds on an object of class \<open>A\<close> and on an object of
  a class derived from \<open>A\<close>.
\<close>

theorem DeserializeFromString_type_match:
  assumes "DynamicCast_PairChecker checker = Some pchecker"
    and "GetCheckers pchecker = (Some fc, Some sc)"
    and "CreateValidValue fc (first_token text) = Some v1"
  shows "DeserializeFromString A B this text checker h =
           (if is_instance A v1 then
              (case CreateValidValue sc (second_token text) of
                 None \<Rightarrow> Inr (False, this, h @ [v1])
               | Some v2 \<Rightarrow>
                   if is_instance B v2 then
                     Inr (True, this\<lparr>m_value := (Some (length h), Some (Suc (length h)))\<rparr>,
                          h @ [v1, v2])
                   else Inr (False, this, h @ [v1, v2]))
            else Inr (False, this, h @ [v1]))"
  using assms(3)
  by (auto simp: DeserializeFromString_pair [OF assms(1,2)] split: option.splits)

theorem DeserializeFromString_type_match_witness:
  "DeserializeFromString IntegerValue_class IntegerValue_class \<lparr>m_value = (Some 0, Some 1)\<rparr>
      ''3 abc'' (Some string_integer_checker) [IntegerValue 7, IntegerValue 8]
     = Inr (False, \<lparr>m_value = (Some 0, Some 1)\<rparr>,
            [IntegerValue 7, IntegerValue 8, StringValue ''3''])
   \<and> DeserializeFromString StringValue_class IntegerValue_class \<lparr>m_value = (Some 1, Some 0)\<rparr>
      ''3 x'' (Some string_string_checker) [IntegerValue 7, StringValue ''y'']
     = Inr (False, \<lparr>m_value = (Some 1, Some 0)\<rparr>,
            [IntegerValue 7, StringValue ''y'', StringValue ''3'', StringValue ''x''])
   \<and> DeserializeFromString StringValue_class StringValue_class \<lparr>m_value = (Some 0, Some 1)\<rparr>
      ''3 x'' (Some string_string_checker) [StringValue ''z'', StringValue ''y'']
     = Inr (True, \<lparr>m_value = (Some 2, Some 3)\<rparr>,
            [StringValue ''z'', StringValue ''y'', StringValue ''3'', StringValue ''x''])"
proof -
  have c: "DynamicCast_PairChecker (Some string_string_checker) = Some string_string_checker"
    by (simp add: fixture_defs)
  have g: "GetCheckers string_string_checker = (Some MakeStringChecker, Some MakeStringChecker)"
    by (simp add: fixture_defs GetCheckers_def)
  have c': "DynamicCast_PairChecker (Some string_integer_checker) = Some string_integer_checker"
    by (simp add: fixture_defs)
  have g': "GetCheckers string_integer_checker = (Some MakeStringChecker, Some MakeIntegerChecker)"
    by (simp add: fixture_defs GetCheckers_def)
  have t1: "CreateValidValue MakeStringChecker (first_token ''3 x'') = Some (StringValue ''3'')"
    by (simp add: fixture_defs first_token_def op_defs)
  have t2: "CreateValidValue MakeStringChecker (second_token ''3 x'') = Some (StringValue ''x'')"
    by (simp add: fixture_defs second_token_def op_defs)
  have t1': "CreateValidValue MakeStringChecker (first_token ''3 abc'') = Some (StringValue ''3'')"
    by (simp add: fixture_defs first_token_def op_defs)
  note r = DeserializeFromString_type_match [OF c g t1]
  note r' = DeserializeFromString_type_match [OF c' g' t1']
  show ?thesis
    using r' [of IntegerValue_class IntegerValue_class "\<lparr>m_value = (Some 0, Some 1)\<rparr>"
               "[IntegerValue 7, IntegerValue 8]"]
          r [of StringValue_class IntegerValue_class "\<lparr>m_value = (Some 1, Some 0)\<rparr>"
               "[IntegerValue 7, StringValue ''y'']"]
          r [of StringValue_class StringValue_class "\<lparr>m_value = (Some 0, Some 1)\<rparr>"
               "[StringValue ''z'', StringValue ''y'']"]
    by (simp add: t2 IntegerValue_class_def StringValue_class_def)
qed

text \<open>A value whose concrete class is not \<open>A\<close> is installed when its class is derived from
  \<open>A\<close>: the checker creates objects of class \<open>DerivedValue\<close>, and the pair of two \<open>BaseValue\<close>
  components takes them and returns true.\<close>

theorem DeserializeFromString_derived_class_counterexample:
  "DeserializeFromString BaseValue_class BaseValue_class \<lparr>m_value = (Some 0, Some 1)\<rparr>
      ''a b'' (Some derived_derived_checker) [Object BaseValue_id ''x'', Object BaseValue_id ''y'']
     = Inr (True, \<lparr>m_value = (Some 2, Some 3)\<rparr>,
            [Object BaseValue_id ''x'', Object BaseValue_id ''y'',
             Object DerivedValue_id ''a'', Object DerivedValue_id ''b''])
   \<and> concrete_class (Object DerivedValue_id ''a'') \<noteq> BaseValue_id
   \<and> concrete_class (Object DerivedValue_id ''b'') \<noteq> BaseValue_id"
  by (simp add: fixture_defs op_defs)

lemma tokens_3_x_y: "tokens ''3 x y'' = [''3'', ''x'', ''y'']"
  by (simp add: tokens.simps isspace_def)

section \<open>Text with more than two tokens\<close>

text \<open>
  C10. When the text holds more than two white-space-delimited tokens, only the first two
  are read: if the component checkers accept them with values of the component classes, the
  call returns true and installs these two values, whatever follows the second token.
\<close>

theorem DeserializeFromString_extra_tokens:
  assumes "2 < length (tokens text)"
    and "DynamicCast_PairChecker checker = Some pchecker"
    and "GetCheckers pchecker = (Some fc, Some sc)"
    and "CreateValidValue fc (tokens text ! 0) = Some v1" and "is_instance A v1"
    and "CreateValidValue sc (tokens text ! 1) = Some v2" and "is_instance B v2"
  shows "DeserializeFromString A B this text checker h =
           Inr (True, \<lparr>m_value = (Some (length h), Some (Suc (length h)))\<rparr>, h @ [v1, v2])
         \<and> Get A B \<lparr>m_value = (Some (length h), Some (Suc (length h)))\<rparr> (h @ [v1, v2])
             = Inr (Get_of A v1, Get_of B v2)"
proof -
  from assms(1) obtain t0 t1 ts where ts: "tokens text = t0 # t1 # ts"
    by (cases "tokens text"; cases "tl (tokens text)") auto
  with first_second_token [OF ts] assms(4,6)
  have "CreateValidValue fc (first_token text) = Some v1"
    and "CreateValidValue sc (second_token text) = Some v2"
    by simp_all
  with assms(5,7) have "DeserializeFromString A B this text checker h =
           Inr (True, \<lparr>m_value = (Some (length h), Some (Suc (length h)))\<rparr>, h @ [v1, v2])"
    by (simp add: DeserializeFromString_pair [OF assms(2,3)])
  moreover have "Get A B \<lparr>m_value = (Some (length h), Some (Suc (length h)))\<rparr> (h @ [v1, v2])
             = Inr (Get_of A v1, Get_of B v2)"
    by (simp add: Get_def deref_def nth_append)
  ultimately show ?thesis by simp
qed

theorem DeserializeFromString_extra_tokens_witness:
  "2 < length (tokens ''3 x y'')
   \<and> DeserializeFromString IntegerValue_class StringValue_class \<lparr>m_value = (Some 0, Some 1)\<rparr>
        ''3 x y'' (Some integer_string_checker) [IntegerValue 7, StringValue ''z'']
       = Inr (True, \<lparr>m_value = (Some 2, Some 3)\<rparr>,
              [IntegerValue 7, StringValue ''z'', IntegerValue 3, StringValue ''x''])
   \<and> Get IntegerValue_class StringValue_class \<lparr>m_value = (Some 2, Some 3)\<rparr>
        [IntegerValue 7, StringValue ''z'', IntegerValue 3, StringValue ''x''] = Inr (3, ''x'')"
proof -
  have n: "2 < length (tokens ''3 x y'')"
    by (simp add: tokens_3_x_y)
  have c: "DynamicCast_PairChecker (Some integer_string_checker) = Some integer_string_checker"
    by (simp add: fixture_defs)
  have g: "GetCheckers integer_string_checker = (Some MakeIntegerChecker, Some MakeStringChecker)"
    by (simp add: fixture_defs GetCheckers_def)
  have t1: "CreateValidValue MakeIntegerChecker (tokens ''3 x y'' ! 0) = Some (IntegerValue 3)"
    by (simp add: tokens_3_x_y fixture_defs op_defs)
  have i1: "is_instance IntegerValue_class (IntegerValue 3)"
    by (simp add: fixture_defs)
  have t2: "CreateValidValue MakeStringChecker (tokens ''3 x y'' ! 1) = Some (StringValue ''x'')"
    by (simp add: tokens_3_x_y fixture_defs)
  have i2: "is_instance StringValue_class (StringValue ''x'')"
    by (simp add: fixture_defs)
  show ?thesis
    using n DeserializeFromString_extra_tokens [OF n c g t1 i1 t2 i2,
              of "\<lparr>m_value = (Some 0, Some 1)\<rparr>" "[IntegerValue 7, StringValue ''z'']"]
    by (simp add: numeral_2_eq_2 numeral_3_eq_3 IntegerValue_class_def StringValue_class_def)
qed

section \<open>Text with a single token\<close>

text \<open>When the text holds one token, both component checkers are given that token.\<close>

lemma single_token_read_twice:
  assumes "tokens text = [t]"
  shows "first_token text = t \<and> second_token text = t"
proof -
  obtain r where r: "extract_string (istringstream_of text) text
                       = (\<lparr>buf = r, eofbit = (r = []), failbit = False\<rparr>, t)"
    and tr: "tokens r = []"
    using extract_string_tokens [of "istringstream_of text" t "[]" "text"] assms
    by (auto simp: istringstream_of_def)
  from tr have "dropWhile isspace r = []"
    by (simp add: tokens.simps [of r] split: if_splits)
  then have "extract_string \<lparr>buf = r, eofbit = (r = []), failbit = False\<rparr> t
               = (\<lparr>buf = [], eofbit = True, failbit = True\<rparr>, t)"
    by (cases "r = []") (simp_all add: extract_string_def)
  with r show ?thesis
    by (simp add: first_token_def second_token_def)
qed

text \<open>
  C3. The text \<open>3\<close> holds one token. The second extraction fails and leaves \<open>value\<close> as the
  first one set it, so the second component checker is given \<open>3\<close> again: with two integer
  components the call returns true and the pair, which held \<open>(7, 8)\<close>, holds \<open>(3, 3)\<close>.
\<close>

theorem DeserializeFromString_single_token:
  "tokens ''3'' = [''3'']
   \<and> Get IntegerValue_class IntegerValue_class \<lparr>m_value = (Some 0, Some 1)\<rparr>
        [IntegerValue 7, IntegerValue 8] = Inr (7, 8)
   \<and> DeserializeFromString IntegerValue_class IntegerValue_class \<lparr>m_value = (Some 0, Some 1)\<rparr>
        ''3'' (Some integer_integer_checker) [IntegerValue 7, IntegerValue 8]
       = Inr (True, \<lparr>m_value = (Some 2, Some 3)\<rparr>,
              [IntegerValue 7, IntegerValue 8, IntegerValue 3, IntegerValue 3])
   \<and> Get IntegerValue_class IntegerValue_class \<lparr>m_value = (Some 2, Some 3)\<rparr>
        [IntegerValue 7, IntegerValue 8, IntegerValue 3, IntegerValue 3] = Inr (3, 3)"
proof -
  have "tokens ''3'' = [''3'']"
    by (simp add: tokens.simps isspace_def)
  moreover have "DeserializeFromString IntegerValue_class IntegerValue_class
        \<lparr>m_value = (Some 0, Some 1)\<rparr> ''3'' (Some integer_integer_checker)
        [IntegerValue 7, IntegerValue 8]
       = Inr (True, \<lparr>m_value = (Some 2, Some 3)\<rparr>,
              [IntegerValue 7, IntegerValue 8, IntegerValue 3, IntegerValue 3])"
    by (simp add: fixture_defs op_defs)
  ultimately show ?thesis
    by (simp add: IntegerValue_class_def Get_def deref_def)
qed

section \<open>Errors of DeserializeFromString\<close>

text \<open>With a null checker or a checker that is not a pair checker the call returns false
  and changes nothing; with a pair checker whose two component checkers are set it returns a
  boolean.\<close>

lemma DeserializeFromString_not_pair_checker:
  assumes "DynamicCast_PairChecker checker = None"
  shows "DeserializeFromString A B this text checker h = Inr (False, this, h)"
  using assms by (simp add: DeserializeFromString_def)

lemma DeserializeFromString_returns:
  assumes "checkers_set checker"
  shows "\<exists>b this' h'. DeserializeFromString A B this text checker h = Inr (b, this', h')"
proof (cases "DynamicCast_PairChecker checker")
  case None
  then show ?thesis by (auto simp: DeserializeFromString_def)
next
  case (Some pchecker)
  then have eq: "checker = Some pchecker"
    by (rule DynamicCast_PairChecker_Some)
  with Some assms obtain fc sc where "GetCheckers pchecker = (Some fc, Some sc)"
    by (cases pchecker) (auto simp: GetCheckers_def)
  from DeserializeFromString_pair [OF Some this, of A B this "text" h] show ?thesis
    by (auto split: option.splits)
qed

text \<open>With a pair checker whose first component checker is unset, the call dereferences
  that null pointer, for every text.\<close>

lemma DeserializeFromString_unset_first:
  assumes "DynamicCast_PairChecker checker = Some pchecker"
    and "fst (GetCheckers pchecker) = None"
  shows "DeserializeFromString A B this text checker h = Inl NullPointerDereference"
  using assms by (simp add: DeserializeFromString_def split: prod.splits)

text \<open>
  C4. Every failure of \<open>DeserializeFromString\<close> is to be a return of false. With the
  checker that \<open>MakePairChecker<IntegerValue, IntegerValue>()\<close> returns, whose component
  checkers are still unset, the call on the text \<open>3 4\<close> does not return false: it dereferences
  the null first component checker.
\<close>

theorem DeserializeFromString_unset_checker:
  "DeserializeFromString IntegerValue_class IntegerValue_class \<lparr>m_value = (Some 0, Some 1)\<rparr>
     ''3 4'' (Some unset_checker) [IntegerValue 7, IntegerValue 8] = Inl NullPointerDereference"
  by (simp add: fixture_defs op_defs)

section \<open>Round trip\<close>

text \<open>
  C2. Let the pair checker have both component checkers set, and let each component of
  \<open>(x, y)\<close> serialize to a non-empty text without white space from which its component
  checker creates a value of the component class whose \<open>Get\<close> is that component. Then
  serializing the pair constructed from \<open>(x, y)\<close> and deserializing the text into a fresh
  default-constructed pair returns true, and \<open>Get\<close> of the fresh pair is \<open>(x, y)\<close>.
\<close>

theorem roundtrip_tokens:
  assumes "DynamicCast_PairChecker checker = Some pchecker"
    and "GetCheckers pchecker = (Some fc, Some sc)"
    and "SerializeToString_v V (Create_from A x) checker = s1"
    and "s1 \<noteq> []" and "\<forall>c\<in>set s1. \<not> isspace c"
    and "CreateValidValue fc s1 = Some v1" and "is_instance A v1" and "Get_of A v1 = x"
    and "SerializeToString_v V (Create_from B y) checker = s2"
    and "s2 \<noteq> []" and "\<forall>c\<in>set s2. \<not> isspace c"
    and "CreateValidValue sc s2 = Some v2" and "is_instance B v2" and "Get_of B v2 = y"
  shows "roundtrip V A B checker (x, y) h = Inr (True, (x, y))"
proof -
  have tk: "tokens (s1 @ CHR '' '' # s2) = s1 # s2 # []"
    using assms(4,5,10,11) by (simp add: tokens_word_space isspace_space tokens_word)
  have ft: "first_token (s1 @ CHR '' '' # s2) = s1" and st: "second_token (s1 @ CHR '' '' # s2) = s2"
    using first_second_token [OF tk] by simp_all
  have ser: "SerializeToString V \<lparr>m_value = (Some (length h), Some (Suc (length h)))\<rparr> checker
               (h @ [Create_from A x, Create_from B y]) = Inr (s1 @ CHR '' '' # s2)"
    using assms(3,9) by (simp add: SerializeToString_def deref_def nth_append)
  have des: "DeserializeFromString A B \<lparr>m_value = (Some (Suc (Suc (length h))), Some (Suc (Suc (Suc (length h)))))\<rparr>
               (s1 @ CHR '' '' # s2) checker
               (h @ [Create_from A x, Create_from B y, Create_default A, Create_default B])
             = Inr (True, \<lparr>m_value = (Some (length h + 4), Some (length h + 5))\<rparr>,
                    h @ [Create_from A x, Create_from B y, Create_default A, Create_default B, v1, v2])"
    using assms(6,7,12,13) by (simp add: DeserializeFromString_pair [OF assms(1,2)] ft st)
  have get: "Get A B \<lparr>m_value = (Some (length h + 4), Some (length h + 5))\<rparr>
               (h @ [Create_from A x, Create_from B y, Create_default A, Create_default B, v1, v2])
             = Inr (x, y)"
    using assms(8,14) by (simp add: Get_def deref_def nth_append)
  show ?thesis
    by (simp add: roundtrip_def PairValue_import_def Set_def PairValue_default_def Create_def
          ser des get)
qed

theorem roundtrip_tokens_witness:
  "roundtrip AttributeValue_methods IntegerValue_class StringValue_class
     (Some integer_string_checker) (3, ''x'') [] = Inr (True, (3, ''x''))"
proof -
  have c: "DynamicCast_PairChecker (Some integer_string_checker) = Some integer_string_checker"
    by (simp add: fixture_defs)
  have g: "GetCheckers integer_string_checker = (Some MakeIntegerChecker, Some MakeStringChecker)"
    by (simp add: fixture_defs GetCheckers_def)
  have s1: "SerializeToString_v AttributeValue_methods (Create_from IntegerValue_class 3)
              (Some integer_string_checker) = ''3''"
    by (simp add: fixture_defs op_defs)
  have s2: "SerializeToString_v AttributeValue_methods (Create_from StringValue_class ''x'')
              (Some integer_string_checker) = ''x''"
    by (simp add: fixture_defs)
  have n1: "''3'' \<noteq> []" and w1: "\<forall>c\<in>set ''3''. \<not> isspace c"
    and n2: "''x'' \<noteq> []" and w2: "\<forall>c\<in>set ''x''. \<not> isspace c"
    by (simp_all add: isspace_def)
  have v1: "CreateValidValue MakeIntegerChecker ''3'' = Some (IntegerValue 3)"
    by (simp add: fixture_defs op_defs)
  have v2: "CreateValidValue MakeStringChecker ''x'' = Some (StringValue ''x'')"
    by (simp add: fixture_defs)
  have i1: "is_instance IntegerValue_class (IntegerValue 3)"
    and g1: "Get_of IntegerValue_class (IntegerValue 3) = 3"
    and i2: "is_instance StringValue_class (StringValue ''x'')"
    and g2: "Get_of StringValue_class (StringValue ''x'') = ''x''"
    by (simp_all add: fixture_defs)
  show ?thesis
    by (rule roundtrip_tokens [OF c g s1 n1 w1 v1 i1 g1 s2 n2 w2 v2 i2 g2])
qed

text \<open>A string component holding a space: the pair of strings \<open>a b\<close> and \<open>c\<close> is written
  \<open>a b c\<close> and read back as the pair of \<open>a\<close> and \<open>b\<close>.\<close>

theorem roundtrip_whitespace_counterexample:
  "roundtrip AttributeValue_methods StringValue_class StringValue_class
     (Some string_string_checker) (''a b'', ''c'') [] = Inr (True, (''a'', ''b''))"
  by (simp add: roundtrip_def fixture_defs op_defs)

section \<open>Copy\<close>

lemma deref_Inr: "deref p h = Inr v \<Longrightarrow> \<exists>a. p = Some a \<and> a < length h \<and> h ! a = v"
  by (auto simp: deref_def split: option.splits if_splits)

text \<open>
  C7. Let both components be present, and let \<open>Copy\<close> of each component return an object of
  the component's class with the same \<open>Get\<close>. Then \<open>Copy\<close> returns a new pair whose
  components are these two newly created objects, not the objects of the original; \<open>Get\<close> on
  the copy equals \<open>Get\<close> on the original; after \<open>Set\<close> on the original, \<open>Get\<close> on the copy is
  unchanged, and after \<open>Set\<close> on the copy, \<open>Get\<close> on the original is unchanged. When the first
  component is absent, \<open>Copy\<close> returns, without error, a default-constructed pair.
\<close>

theorem Copy_independent:
  assumes "deref (fst (m_value this)) h = Inr v1" and "deref (snd (m_value this)) h = Inr v2"
    and "Copy_v V v1 = Some c1" and "is_instance A c1" and "Get_of A c1 = Get_of A v1"
    and "Copy_v V v2 = Some c2" and "is_instance B c2" and "Get_of B c2 = Get_of B v2"
  shows "(let copy = \<lparr>m_value = (Some (Suc (Suc (length h))), Some (Suc (Suc (Suc (length h)))))\<rparr>;
              h1 = h @ [Create_default A, Create_default B, c1, c2]
          in Copy V A B this h = Inr (copy, h1)
             \<and> fst (m_value copy) \<noteq> fst (m_value this)
             \<and> snd (m_value copy) \<noteq> snd (m_value this)
             \<and> Get A B copy h1 = Get A B this h
             \<and> Get A B copy (snd (Set A B this value h1)) = Get A B copy h1
             \<and> Get A B this (snd (Set A B copy value h1)) = Get A B this h)
         \<and> Copy V A B \<lparr>m_value = (None, q)\<rparr> h = Inr (PairValue_default A B h)"
proof -
  let ?copy = "\<lparr>m_value = (Some (Suc (Suc (length h))), Some (Suc (Suc (Suc (length h)))))\<rparr>"
  let ?h1 = "h @ [Create_default A, Create_default B, c1, c2]"
  from assms(1) obtain a where a: "fst (m_value this) = Some a" "a < length h" "h ! a = v1"
    by (auto dest: deref_Inr)
  from assms(2) obtain b where b: "snd (m_value this) = Some b" "b < length h" "h ! b = v2"
    by (auto dest: deref_Inr)
  have ok: "valid this h"
    using a b by (simp add: valid_def valid_ptr_def)
  have ok_copy: "valid ?copy ?h1"
    by (simp add: valid_def valid_ptr_def)
  have 1: "Copy V A B this h = Inr (?copy, ?h1)"
    using a b assms(3,4,6,7)
    by (simp add: Copy_def PairValue_default_def Create_def returned_def deref_def
          DynamicCast_def nth_append)
  have 2: "fst (m_value ?copy) \<noteq> fst (m_value this)"
    using a by simp
  have 3: "snd (m_value ?copy) \<noteq> snd (m_value this)"
    using b by simp
  have get_this: "Get A B this h = Inr (Get_of A v1, Get_of B v2)"
    using assms(1,2) by (simp add: Get_def)
  have get_copy: "Get A B ?copy ?h1 = Inr (Get_of A v1, Get_of B v2)"
    using assms(5,8) by (simp add: Get_def deref_def nth_append)
  have 4: "Get A B ?copy ?h1 = Get A B this h"
    by (simp only: get_this get_copy)
  have set_store: "snd (Set A B p value ?h1)
                     = ?h1 @ [Create_from A (fst value), Create_from B (snd value)]" for p
    by (simp add: Set_def Create_def)
  have 5: "Get A B ?copy (snd (Set A B this value ?h1)) = Get A B ?copy ?h1"
    by (simp only: set_store Get_append [OF ok_copy])
  have "Get A B this (snd (Set A B ?copy value ?h1))
          = Get A B this (h @ ([Create_default A, Create_default B, c1, c2]
                                @ [Create_from A (fst value), Create_from B (snd value)]))"
    by (simp only: set_store append_assoc)
  then have 6: "Get A B this (snd (Set A B ?copy value ?h1)) = Get A B this h"
    by (simp only: Get_append [OF ok])
  have 7: "Copy V A B \<lparr>m_value = (None, q)\<rparr> h = Inr (PairValue_default A B h)"
    by (simp add: Copy_def split: prod.splits)
  show ?thesis
    unfolding Let_def using 1 2 3 4 5 6 7 by blast
qed

theorem Copy_independent_witness:
  "Copy AttributeValue_methods IntegerValue_class StringValue_class \<lparr>m_value = (Some 0, Some 1)\<rparr>
      [IntegerValue 7, StringValue ''x'']
     = Inr (\<lparr>m_value = (Some 4, Some 5)\<rparr>,
            [IntegerValue 7, StringValue ''x'', IntegerValue 0, StringValue [],
             IntegerValue 7, StringValue ''x''])
   \<and> Get IntegerValue_class StringValue_class \<lparr>m_value = (Some 4, Some 5)\<rparr>
        (snd (Set IntegerValue_class StringValue_class \<lparr>m_value = (Some 0, Some 1)\<rparr> (9, ''y'')
           [IntegerValue 7, StringValue ''x'', IntegerValue 0, StringValue [],
            IntegerValue 7, StringValue ''x'']))
       = Inr (7, ''x'')
   \<and> Get IntegerValue_class StringValue_class \<lparr>m_value = (Some 0, Some 1)\<rparr>
        (snd (Set IntegerValue_class StringValue_class \<lparr>m_value = (Some 4, Some 5)\<rparr> (9, ''y'')
           [IntegerValue 7, StringValue ''x'', IntegerValue 0, StringValue [],
            IntegerValue 7, StringValue ''x'']))
       = Inr (7, ''x'')
   \<and> Get IntegerValue_class StringValue_class
        (fst (Set IntegerValue_class StringValue_class \<lparr>m_value = (Some 0, Some 1)\<rparr> (9, ''y'')
           [IntegerValue 7, StringValue ''x'', IntegerValue 0, StringValue [],
            IntegerValue 7, StringValue ''x'']))
        (snd (Set IntegerValue_class StringValue_class \<lparr>m_value = (Some 0, Some 1)\<rparr> (9, ''y'')
           [IntegerValue 7, StringValue ''x'', IntegerValue 0, StringValue [],
            IntegerValue 7, StringValue ''x'']))
       = Inr (9, ''y'')"
proof -
  have d1: "deref (fst (m_value \<lparr>m_value = (Some 0, Some 1)\<rparr>)) [IntegerValue 7, StringValue ''x'']
              = Inr (IntegerValue 7)"
    and d2: "deref (snd (m_value \<lparr>m_value = (Some 0, Some 1)\<rparr>)) [IntegerValue 7, StringValue ''x'']
              = Inr (StringValue ''x'')"
    by (simp_all add: deref_def)
  have c1: "Copy_v AttributeValue_methods (IntegerValue 7) = Some (IntegerValue 7)"
    and c2: "Copy_v AttributeValue_methods (StringValue ''x'') = Some (StringValue ''x'')"
    by (simp_all add: fixture_defs)
  have i1: "is_instance IntegerValue_class (IntegerValue 7)"
    and i2: "is_instance StringValue_class (StringValue ''x'')"
    by (simp_all add: fixture_defs)
  have g1: "Get_of IntegerValue_class (IntegerValue 7) = Get_of IntegerValue_class (IntegerValue 7)"
    and g2: "Get_of StringValue_class (StringValue ''x'') = Get_of StringValue_class (StringValue ''x'')"
    by simp_all
  have before: "Get IntegerValue_class StringValue_class \<lparr>m_value = (Some 0, Some 1)\<rparr>
                  [IntegerValue 7, StringValue ''x''] = Inr (7, ''x'')"
    by (simp add: fixture_defs op_defs)
  have after: "Get IntegerValue_class StringValue_class
        (fst (Set IntegerValue_class StringValue_class \<lparr>m_value = (Some 0, Some 1)\<rparr> (9, ''y'')
           [IntegerValue 7, StringValue ''x'', IntegerValue 0, StringValue [],
            IntegerValue 7, StringValue ''x'']))
        (snd (Set IntegerValue_class StringValue_class \<lparr>m_value = (Some 0, Some 1)\<rparr> (9, ''y'')
           [IntegerValue 7, StringValue ''x'', IntegerValue 0, StringValue [],
            IntegerValue 7, StringValue ''x'']))
       = Inr (9, ''y'')"
    by (simp add: fixture_defs op_defs)
  show ?thesis
    using Copy_independent [OF d1 d2 c1 i1 g1 c2 i2 g2, of "(9, ''y'')" None] before after
    by (simp add: Let_def numeral_eq_Suc IntegerValue_class_def StringValue_class_def)
qed

text \<open>The copy of a pair without components has both components: it is the
  default-constructed pair.\<close>

theorem Copy_empty_counterexample:
  "Copy AttributeValue_methods IntegerValue_class StringValue_class \<lparr>m_value = (None, None)\<rparr> []
     = Inr (\<lparr>m_value = (Some 0, Some 1)\<rparr>, [IntegerValue 0, StringValue []])"
  by (simp add: fixture_defs op_defs)

section \<open>Both components stay present\<close>

lemma both_present_iff:
  "both_present this h \<longleftrightarrow> (\<exists>a b. m_value this = (Some a, Some b) \<and> a < length h \<and> b < length h)"
  by (auto simp: both_present_def split: prod.splits option.splits)

lemma both_present_append: "both_present this h \<Longrightarrow> both_present this (h @ ext)"
  by (auto simp: both_present_iff)

lemma both_present_default: "PairValue_default A B h = (this, h') \<Longrightarrow> both_present this h'"
  by (auto simp: PairValue_default_def Create_def both_present_iff)

lemma both_present_Set: "Set A B p value h = (this, h') \<Longrightarrow> both_present this h'"
  by (auto simp: Set_def Create_def both_present_iff)

lemma both_present_DeserializeFromString:
  assumes "DeserializeFromString A B this text checker h = Inr (b, this', h')"
    and "both_present this h"
  shows "both_present this' h'"
proof (cases b)
  case False
  with assms(1) have "this' = this" and "prefix h h'"
    by (auto dest: DeserializeFromString_False_this DeserializeFromString_prefix)
  with assms(2) show ?thesis
    by (auto simp: prefix_def both_present_append)
next
  case True
  with assms(1) show ?thesis
    by (auto simp: DeserializeFromString_def Let_def returned_def Create_def DynamicCast_def
          both_present_iff
          split: option.splits prod.splits if_splits)
qed

lemma both_present_Get:
  "both_present this h \<Longrightarrow>
     Get A B this h = Inr (Get_of A (h ! the (fst (m_value this))), Get_of B (h ! the (snd (m_value this))))"
  by (auto simp: both_present_iff Get_def deref_def)

text \<open>
  C8. In every state produced by a constructor followed by any calls of \<open>Set\<close> and of
  \<open>DeserializeFromString\<close> (returning true or false), both components are present, and
  \<open>Get\<close> returns the pair read from the two component objects: it dereferences no null
  pointer.
\<close>

theorem reachable_both_present:
  assumes "reachable A B (this, h)"
  shows "both_present this h
         \<and> Get A B this h
             = Inr (Get_of A (h ! the (fst (m_value this))), Get_of B (h ! the (snd (m_value this))))"
proof -
  have "both_present (fst s) (snd s)" if "reachable A B s" for s
    using that
  proof (induction rule: reachable.induct)
    case (default h)
    then show ?case by (simp add: both_present_default [of A B h] prod_eq_iff)
  next
    case (import "value" h)
    then show ?case
      by (simp add: PairValue_import_def both_present_Set [of A B _ "value" h] prod_eq_iff)
  next
    case (set this h "value")
    then show ?case by (simp add: both_present_Set [of A B this "value" h] prod_eq_iff)
  next
    case (deserialize this h "text" checker b this' h')
    then show ?case by (auto dest: both_present_DeserializeFromString)
  next
    case (other this h ext)
    then show ?case by (simp add: both_present_append)
  qed
  from this [OF assms] have "both_present this h" by simp
  then show ?thesis by (simp add: both_present_Get)
qed

theorem reachable_both_present_witness:
  "reachable IntegerValue_class StringValue_class
     (\<lparr>m_value = (Some 2, Some 3)\<rparr>,
      [IntegerValue 0, StringValue [], IntegerValue 3, StringValue ''x''])
   \<and> both_present \<lparr>m_value = (Some 2, Some 3)\<rparr>
        [IntegerValue 0, StringValue [], IntegerValue 3, StringValue ''x'']
   \<and> Get IntegerValue_class StringValue_class \<lparr>m_value = (Some 2, Some 3)\<rparr>
        [IntegerValue 0, StringValue [], IntegerValue 3, StringValue ''x''] = Inr (3, ''x'')"
proof -
  have r0: "reachable IntegerValue_class StringValue_class
              (PairValue_default IntegerValue_class StringValue_class [])"
    by (rule reachable.default)
  have e0: "PairValue_default IntegerValue_class StringValue_class []
              = (\<lparr>m_value = (Some 0, Some 1)\<rparr>, [IntegerValue 0, StringValue []])"
    by (simp add: fixture_defs op_defs)
  have r1: "reachable IntegerValue_class StringValue_class
              (Set IntegerValue_class StringValue_class \<lparr>m_value = (Some 0, Some 1)\<rparr> (3, ''x'')
                 [IntegerValue 0, StringValue []])"
    using r0 unfolding e0 by (rule reachable.set)
  have e1: "Set IntegerValue_class StringValue_class \<lparr>m_value = (Some 0, Some 1)\<rparr> (3, ''x'')
                 [IntegerValue 0, StringValue []]
              = (\<lparr>m_value = (Some 2, Some 3)\<rparr>,
                 [IntegerValue 0, StringValue [], IntegerValue 3, StringValue ''x''])"
    by (simp add: fixture_defs op_defs)
  have d: "DeserializeFromString IntegerValue_class StringValue_class \<lparr>m_value = (Some 2, Some 3)\<rparr>
             ''abc y'' (Some integer_string_checker)
             [IntegerValue 0, StringValue [], IntegerValue 3, StringValue ''x'']
           = Inr (False, \<lparr>m_value = (Some 2, Some 3)\<rparr>,
                  [IntegerValue 0, StringValue [], IntegerValue 3, StringValue ''x''])"
    by (simp add: fixture_defs op_defs)
  have r2: "reachable IntegerValue_class StringValue_class
              (\<lparr>m_value = (Some 2, Some 3)\<rparr>,
               [IntegerValue 0, StringValue [], IntegerValue 3, StringValue ''x''])"
    using r1 [unfolded e1] d by (rule reachable.deserialize)
  show ?thesis
    using r2 reachable_both_present [OF r2]
    by (simp add: IntegerValue_class_def StringValue_class_def)
qed

section \<open>The name generated by MakePairChecker\<close>

lemma separator_unique:
  assumes "sep \<notin> set xs" and "sep \<notin> set ys" and "xs @ sep # r = ys @ sep # r'"
  shows "xs = ys \<and> r = r'"
proof -
  have "takeWhile (\<lambda>c. c \<noteq> sep) (xs @ sep # r) = xs"
    using assms(1) by (auto simp: takeWhile_tail)
  moreover have "takeWhile (\<lambda>c. c \<noteq> sep) (ys @ sep # r') = ys"
    using assms(2) by (auto simp: takeWhile_tail)
  ultimately have "xs = ys"
    using assms(3) by simp
  with assms(3) show ?thesis by simp
qed

text \<open>
  C9. The generated name is determined by the names that \<open>typeid\<close> gives the pointer types
  of the two component classes. When the names of the two first pointer types contain no
  comma, the names generated for two ordered pairs of component classes are equal exactly
  when \<open>typeid\<close> gives the same name to their first pointer types and the same name to their
  second pointer types.
\<close>

theorem MakePairChecker_name_unique:
  assumes "CHR '','' \<notin> set (typeid_name (Ptr (Class A)))"
    and "CHR '','' \<notin> set (typeid_name (Ptr (Class A')))"
  shows "GetValueTypeName (MakePairChecker typeid_name base A B)
           = GetValueTypeName (MakePairChecker typeid_name base' A' B')
         \<longleftrightarrow> typeid_name (Ptr (Class A)) = typeid_name (Ptr (Class A'))
             \<and> typeid_name (Ptr (Class B)) = typeid_name (Ptr (Class B'))"
proof
  assume eq: "GetValueTypeName (MakePairChecker typeid_name base A B)
           = GetValueTypeName (MakePairChecker typeid_name base' A' B')"
  then have e: "typeid_name (Ptr (Class A)) @ CHR '','' # (CHR '' '' # typeid_name (Ptr (Class B)) @ ''>'')
           = typeid_name (Ptr (Class A')) @ CHR '','' # (CHR '' '' # typeid_name (Ptr (Class B')) @ ''>'')"
    by (simp add: MakePairChecker_def)
  from separator_unique [OF assms e]
  show "typeid_name (Ptr (Class A)) = typeid_name (Ptr (Class A'))
          \<and> typeid_name (Ptr (Class B)) = typeid_name (Ptr (Class B'))"
    by simp
next
  assume "typeid_name (Ptr (Class A)) = typeid_name (Ptr (Class A'))
            \<and> typeid_name (Ptr (Class B)) = typeid_name (Ptr (Class B'))"
  then show "GetValueTypeName (MakePairChecker typeid_name base A B)
           = GetValueTypeName (MakePairChecker typeid_name base' A' B')"
    by (simp add: MakePairChecker_def)
qed

theorem MakePairChecker_name_unique_witness:
  "CHR '','' \<notin> set (example_typeid (Ptr (Class IntegerValue_id)))
   \<and> CHR '','' \<notin> set (example_typeid (Ptr (Class StringValue_id)))
   \<and> GetValueTypeName (MakePairChecker example_typeid (\<lambda>s. None :: AttributeValue option)
        IntegerValue_id StringValue_id)
       = ''ns3::PairValue<N3ns33PtrINS_12IntegerValueEEE, N3ns33PtrINS_11StringValueEEE>''
   \<and> GetValueTypeName (MakePairChecker example_typeid (\<lambda>s. None :: AttributeValue option)
        IntegerValue_id StringValue_id)
       \<noteq> GetValueTypeName (MakePairChecker example_typeid (\<lambda>s. None :: AttributeValue option)
        StringValue_id IntegerValue_id)"
proof -
  have a: "CHR '','' \<notin> set (example_typeid (Ptr (Class IntegerValue_id)))"
    and b: "CHR '','' \<notin> set (example_typeid (Ptr (Class StringValue_id)))"
    by simp_all
  show ?thesis
    using a b MakePairChecker_name_unique [OF a b,
          of "\<lambda>s. None :: AttributeValue option" IntegerValue_id
             "\<lambda>s. None :: AttributeValue option" StringValue_id]
    by (simp add: MakePairChecker_def)
qed

text \<open>
  Two distinct classes to which \<open>typeid\<close> gives the same name get the same generated name in
  the place of the other, and names with a comma make two different ordered pairs collide.
\<close>

theorem MakePairChecker_name_collision_counterexample:
  "Hidden_1 \<noteq> Hidden_2
   \<and> GetValueTypeName (MakePairChecker colliding_typeid (\<lambda>s. None :: AttributeValue option)
        Hidden_1 Hidden_1)
       = GetValueTypeName (MakePairChecker colliding_typeid (\<lambda>s. None :: AttributeValue option)
        Hidden_2 Hidden_1)
   \<and> Comma_1 \<noteq> Comma_3
   \<and> GetValueTypeName (MakePairChecker colliding_typeid (\<lambda>s. None :: AttributeValue option)
        Comma_1 Comma_2)
       = GetValueTypeName (MakePairChecker colliding_typeid (\<lambda>s. None :: AttributeValue option)
        Comma_3 Comma_4)"
  by (simp add: MakePairChecker_def)

end
